theory Spec2Isabelle
  imports Complex_Main
begin

section \<open>Data model\<close>

text \<open>
  The exceptions the program lets escape, as values. \<open>ReError\<close> is Python's
  \<open>re.error\<close> (the spec's PatternCompileError), \<open>FileNotFoundError\<close>,
  \<open>JSONDecodeError\<close> and \<open>TypeError\<close> are the three configuration errors, and
  \<open>IndexError\<close> is what the replacement-template parser of \<open>re\<close> raises for an
  unknown group name. \<open>OtherError\<close> stands for any further subclass of
  \<open>Exception\<close>, tagged with a name. A function that may raise returns a sum, the
  exception on the left. The calls of the logger are left out: they change neither what
  a function returns nor what it raises.
\<close>

datatype exn =
    ReError
  | IndexError
  | FileNotFoundError
  | JSONDecodeError
  | TypeError
  | OtherError string

text \<open>The backslash character, which an Isabelle string literal cannot hold directly.\<close>

abbreviation bslash :: char where
  "bslash \<equiv> CHR 0x5C"

text \<open>
  A Pattern Set is a Python \<open>dict\<close> from category label to rule. Iteration over a
  \<open>dict\<close> follows insertion order, so the model is an association list in that order.
\<close>

type_synonym patterns = "(string \<times> string) list"

section \<open>Construction of the engine\<close>

text \<open>\<open>PIIEntityRedactor._default_patterns\<close>: the three built-in rules, in source order.\<close>

definition default_patterns :: patterns where
  "default_patterns =
    [(''name'', ''([A-Z][a-z]+) ([A-Z][a-z]+)''),
     (''address'', bslash # ''d+ [A-Za-z]+ St(?:reet)?''),
     (''phone_number'',
        bslash # ''(?'' @ bslash # ''d{3}'' @ bslash # '')?[-.'' @ bslash # ''s]?''
        @ bslash # ''d{3}[-.'' @ bslash # ''s]?'' @ bslash # ''d{4}'')]"

text \<open>
  \<open>PIIEntityRedactor.__init__\<close>, the field \<open>self.patterns\<close>:
  \<open>patterns or self._default_patterns()\<close>. Python's \<open>or\<close> yields its right operand
  when the left one is falsy, and both \<open>None\<close> and the empty \<open>dict\<close> are falsy.
\<close>

fun init_patterns :: "patterns option \<Rightarrow> patterns" where
  "init_patterns None = default_patterns"
| "init_patterns (Some []) = default_patterns"
| "init_patterns (Some (p # ps)) = p # ps"

section \<open>The regular-expression library\<close>

text \<open>
  \<open>redact_text\<close> hands every rule to \<open>re.sub\<close> of Python's standard library. The
  matching engine itself is not part of this program, so it is a parameter of the model: a
  function from a rule to its compiled form, \<open>None\<close> when the rule does not compile
  (\<open>re.error\<close>). A compiled rule gives its number of capture groups, its named groups,
  and the matches that the substitution loop finds in a text, from left to right. What
  \<open>re.sub\<close> does around the engine (the replacement template, the splicing of the
  result) is modelled in full below, after the library's documentation and its
  \<open>parse_template\<close>.
\<close>

record rmatch =
  m_start :: nat
  m_end :: nat
  m_groups :: "string option list"

record regex =
  rx_groups :: nat
  rx_groupindex :: "string \<Rightarrow> nat option"
  rx_scan :: "string \<Rightarrow> rmatch list"

type_synonym re_engine = "string \<Rightarrow> regex option"

subsection \<open>Replacement templates\<close>

text \<open>
  The tokenizer of \<open>re\<close> reads a template one character at a time, a backslash together
  with the character after it. A backslash with nothing after it is the error
  \<open>bad escape (end of pattern)\<close>, raised as soon as the tokenizer looks ahead to it.
\<close>

datatype token = Ch char | Esc char | Dangling

fun tokenize :: "string \<Rightarrow> token list" where
  "tokenize [] = []"
| "tokenize [c] = (if c = bslash then [Dangling] else [Ch c])"
| "tokenize (c # d # ds) =
    (if c = bslash then Esc d # tokenize ds else Ch c # tokenize (d # ds))"

datatype titem = Lit string | Group nat

definition is_digit :: "char \<Rightarrow> bool" where
  "is_digit c = (c \<in> set ''0123456789'')"

definition is_octdigit :: "char \<Rightarrow> bool" where
  "is_octdigit c = (c \<in> set ''01234567'')"

definition is_ascii_letter :: "char \<Rightarrow> bool" where
  "is_ascii_letter c =
    (c \<in> set ''abcdefghijklmnopqrstuvwxyzABCDEFGHIJKLMNOPQRSTUVWXYZ'')"

definition digit_val :: "char \<Rightarrow> nat" where
  "digit_val c = of_char c - 48"

definition number_of :: "nat \<Rightarrow> string \<Rightarrow> nat" where
  "number_of base ds = foldl (\<lambda>n c. base * n + digit_val c) 0 ds"

text \<open>
  \<open>str.isidentifier\<close> on ASCII text. Characters above 127 are taken as not belonging to
  an identifier: the model covers group names written in ASCII.
\<close>

definition is_identifier :: "string \<Rightarrow> bool" where
  "is_identifier name =
    (case name of [] \<Rightarrow> False
     | c # cs \<Rightarrow> (is_ascii_letter c \<or> c = CHR ''_'')
         \<and> list_all (\<lambda>d. is_ascii_letter d \<or> is_digit d \<or> d = CHR ''_'') cs)"

text \<open>
  \<open>Tokenizer.getuntil\<close> with the terminator \<open>>\<close>: the name read so far, and the
  tokens after the terminator. \<open>None\<close> when the template ends first.
\<close>

fun getuntil :: "token list \<Rightarrow> (string \<times> token list) option" where
  "getuntil [] = None"
| "getuntil (Dangling # ts) = None"
| "getuntil (Ch c # ts) =
    (if c = CHR ''>'' then Some ([], ts)
     else map_option (\<lambda>(name, rest). (c # name, rest)) (getuntil ts))"
| "getuntil (Esc c # ts) =
    map_option (\<lambda>(name, rest). (bslash # c # name, rest)) (getuntil ts)"

lemma getuntil_shorter:
  "getuntil ts = Some (name, rest) \<Longrightarrow> length rest < length ts"
  by (induction ts arbitrary: name rest rule: getuntil.induct)
     (auto split: if_splits)

lemma getuntil_tl_shorter:
  "getuntil (tl ts) = Some x2 \<Longrightarrow> (name, rest) = x2 \<Longrightarrow> length rest \<le> length ts"
  using getuntil_shorter [of "tl ts" name rest] by simp

text \<open>The lookahead \<open>s.next in DIGITS\<close>: the next token is one character of the class.\<close>

fun next_in :: "(char \<Rightarrow> bool) \<Rightarrow> token list \<Rightarrow> bool" where
  "next_in P (Ch c # ts) = P c"
| "next_in P ts = False"

text \<open>The lookahead is the backslash that ends the template.\<close>

fun at_dangling :: "token list \<Rightarrow> bool" where
  "at_dangling (Dangling # ts) = True"
| "at_dangling ts = False"

text \<open>The character of the next token, read only after \<open>next_in\<close> has held.\<close>

fun next_char :: "token list \<Rightarrow> char" where
  "next_char (Ch c # ts) = c"
| "next_char ts = CHR 0x00"

text \<open>The table \<open>ESCAPES\<close> of the library.\<close>

definition simple_escape :: "char \<Rightarrow> char option" where
  "simple_escape c =
    (if c = CHR ''a'' then Some (CHR 0x07)
     else if c = CHR ''b'' then Some (CHR 0x08)
     else if c = CHR ''f'' then Some (CHR 0x0C)
     else if c = CHR ''n'' then Some (CHR 0x0A)
     else if c = CHR ''r'' then Some (CHR 0x0D)
     else if c = CHR ''t'' then Some (CHR 0x09)
     else if c = CHR ''v'' then Some (CHR 0x0B)
     else if c = bslash then Some bslash
     else None)"

fun add_item :: "titem \<Rightarrow> exn + titem list \<Rightarrow> exn + titem list" where
  "add_item it (Inl e) = Inl e"
| "add_item it (Inr its) = Inr (it # its)"

text \<open>\<open>addgroup\<close>: a reference to a group the rule does not have is an error.\<close>

definition add_group :: "nat \<Rightarrow> nat \<Rightarrow> exn + titem list \<Rightarrow> exn + titem list" where
  "add_group n i r = (if n < i then Inl ReError else add_item (Group i) r)"

text \<open>
  \<open>parse_template\<close>, for a rule with \<open>n\<close> groups and the named groups \<open>gi\<close>. The
  branches are, in the library's order: the reference to a group by name or number (a backslash, \<open>g\<close>, and the name between angle brackets), the octal escape that starts
  with \<open>0\<close>, a group number of one or two digits or an octal escape of three, and the
  other escapes. An unknown group name is an \<open>IndexError\<close>; every other failure is
  \<open>re.error\<close>. After the \<open>>\<close> of a group name the tokenizer already looks at the
  next token, so a backslash at the very end is reported before the name is looked up.
  A group number is a run of ASCII digits, as from Python 3.12 on; Python 3.11 still
  takes a sign or blanks around the number, with a deprecation warning.
\<close>

function parse_template ::
  "nat \<Rightarrow> (string \<Rightarrow> nat option) \<Rightarrow> token list \<Rightarrow> exn + titem list" where
  "parse_template n gi [] = Inr []"
| "parse_template n gi (Dangling # ts) = Inl ReError"
| "parse_template n gi (Ch c # ts) = add_item (Lit [c]) (parse_template n gi ts)"
| "parse_template n gi (Esc c # ts) =
    (if c = CHR ''g'' then
       (if next_in (\<lambda>x. x = CHR ''<'') ts then
          (case getuntil (tl ts) of
             None \<Rightarrow> Inl ReError
           | Some (name, rest) \<Rightarrow>
               if name = [] \<or> at_dangling rest then Inl ReError
               else if list_all is_digit name then
                 add_group n (number_of 10 name) (parse_template n gi rest)
               else if is_identifier name then
                 (case gi name of
                    None \<Rightarrow> Inl IndexError
                  | Some i \<Rightarrow> add_group n i (parse_template n gi rest))
               else Inl ReError)
        else Inl ReError)
     else if c = CHR ''0'' then
       (if next_in is_octdigit ts then
          (if next_in is_octdigit (tl ts) then
             add_item (Lit [char_of (number_of 8 [next_char ts, next_char (tl ts)] mod 256)])
               (parse_template n gi (tl (tl ts)))
           else
             add_item (Lit [char_of (number_of 8 [next_char ts])])
               (parse_template n gi (tl ts)))
        else add_item (Lit [CHR 0x00]) (parse_template n gi ts))
     else if is_digit c then
       (if next_in is_digit ts then
          (if is_octdigit c \<and> is_octdigit (next_char ts) \<and> next_in is_octdigit (tl ts) then
             (if 255 < number_of 8 [c, next_char ts, next_char (tl ts)] then Inl ReError
              else
                add_item (Lit [char_of (number_of 8 [c, next_char ts, next_char (tl ts)])])
                  (parse_template n gi (tl (tl ts))))
           else
             add_group n (number_of 10 [c, next_char ts]) (parse_template n gi (tl ts)))
        else add_group n (digit_val c) (parse_template n gi ts))
     else
       (case simple_escape c of
          Some x \<Rightarrow> add_item (Lit [x]) (parse_template n gi ts)
        | None \<Rightarrow>
            if is_ascii_letter c then Inl ReError
            else add_item (Lit [bslash, c]) (parse_template n gi ts)))"
  by pat_completeness auto

termination
  by (relation "measure (\<lambda>(n, gi, ts). length ts)")
     (auto dest: getuntil_tl_shorter simp: less_Suc_eq_le le_SucI)

text \<open>
  \<open>expand_template\<close>: group 0 is the whole match, a group that took no part in the
  match expands to the empty string. The parser admits no group number above the number
  of groups of the rule, so the last branch of \<open>group_text\<close> is never reached with a
  match that carries all its groups.
\<close>

fun group_text :: "string \<Rightarrow> rmatch \<Rightarrow> nat \<Rightarrow> string" where
  "group_text text m 0 = take (m_end m - m_start m) (drop (m_start m) text)"
| "group_text text m (Suc i) =
    (if i < length (m_groups m)
     then (case m_groups m ! i of None \<Rightarrow> [] | Some s \<Rightarrow> s)
     else [])"

fun expand_template :: "titem list \<Rightarrow> string \<Rightarrow> rmatch \<Rightarrow> string" where
  "expand_template [] text m = []"
| "expand_template (Lit s # its) text m = s @ expand_template its text m"
| "expand_template (Group i # its) text m = group_text text m i @ expand_template its text m"

text \<open>
  A replacement without a backslash is inserted as it is; any other is parsed, once per
  call of \<open>sub\<close> and before the text is searched.
\<close>

definition compile_template :: "regex \<Rightarrow> string \<Rightarrow> exn + titem list" where
  "compile_template rx repl =
    (if bslash \<in> set repl
     then parse_template (rx_groups rx) (rx_groupindex rx) (tokenize repl)
     else Inr [Lit repl])"

subsection \<open>Substitution\<close>

text \<open>
  The loop of \<open>sub\<close>: \<open>i\<close> is the end of the previous match; the text between it and
  the start \<open>b\<close> of the next match is copied, then the replacement, and after the last
  match the rest of the text.
\<close>

fun splice :: "string \<Rightarrow> nat \<Rightarrow> (nat \<times> nat \<times> string) list \<Rightarrow> string" where
  "splice text i [] = drop i text"
| "splice text i ((b, e, r) # ms) = take (b - i) (drop i text) @ r @ splice text e ms"

definition re_sub :: "re_engine \<Rightarrow> string \<Rightarrow> string \<Rightarrow> string \<Rightarrow> exn + string" where
  "re_sub E pattern repl text =
    (case E pattern of
       None \<Rightarrow> Inl ReError
     | Some rx \<Rightarrow>
         (case compile_template rx repl of
            Inl e \<Rightarrow> Inl e
          | Inr tpl \<Rightarrow>
              Inr (splice text 0
                    (map (\<lambda>m. (m_start m, m_end m, expand_template tpl text m))
                      (rx_scan rx text)))))"

section \<open>The synthetic-value generator\<close>

text \<open>
  The \<open>Faker\<close> object is used through three methods. Each call may return a string or
  raise, and moves the generator on: \<open>'g\<close> is the state of the generator. Only
  exceptions derived from \<open>Exception\<close> are modelled.
\<close>

record 'g faker =
  faker_name :: "'g \<Rightarrow> (exn + string) \<times> 'g"
  faker_address :: "'g \<Rightarrow> (exn + string) \<times> 'g"
  faker_phone_number :: "'g \<Rightarrow> (exn + string) \<times> 'g"

text \<open>The handler of \<open>_get_replacement\<close>: an exception becomes the placeholder.\<close>

fun recover :: "(exn + string) \<times> 'g \<Rightarrow> string \<times> 'g" where
  "recover (Inl e, g) = (''[REDACTED]'', g)"
| "recover (Inr s, g) = (s, g)"

text \<open>\<open>PIIEntityRedactor._get_replacement\<close>.\<close>

definition get_replacement :: "'g faker \<Rightarrow> string \<Rightarrow> 'g \<Rightarrow> string \<times> 'g" where
  "get_replacement F entity_type g =
    (if entity_type = ''name'' then recover (faker_name F g)
     else if entity_type = ''address'' then recover (faker_address F g)
     else if entity_type = ''phone_number'' then recover (faker_phone_number F g)
     else ([], g))"

section \<open>Redaction\<close>

record 'g redactor =
  r_patterns :: patterns
  r_faker :: "'g faker"

text \<open>
  \<open>PIIEntityRedactor.__init__\<close>; \<open>F\<close> is the generator in use, the instance given or a
  new \<open>Faker()\<close>.
\<close>

definition init :: "patterns option \<Rightarrow> 'g faker \<Rightarrow> 'g redactor" where
  "init pats F = \<lparr>r_patterns = init_patterns pats, r_faker = F\<rparr>"

text \<open>
  The loop of \<open>redact_text\<close> over \<open>self.patterns.items()\<close>. The argument
  \<open>self._get_replacement(entity_type)\<close> is evaluated before \<open>re.sub\<close> is entered. Both
  handlers log and raise the exception again, so an error of \<open>re.sub\<close> ends the call
  with that error.
\<close>

fun redact_loop ::
  "re_engine \<Rightarrow> 'g faker \<Rightarrow> patterns \<Rightarrow> string \<Rightarrow> 'g \<Rightarrow> (exn + string) \<times> 'g" where
  "redact_loop E F [] text g = (Inr text, g)"
| "redact_loop E F ((entity_type, pattern) # ps) text g =
    (case get_replacement F entity_type g of
       (repl, g') \<Rightarrow>
         (case re_sub E pattern repl text of
            Inl e \<Rightarrow> (Inl e, g')
          | Inr redacted \<Rightarrow> redact_loop E F ps redacted g'))"

definition redact_text ::
  "re_engine \<Rightarrow> 'g redactor \<Rightarrow> string \<Rightarrow> 'g \<Rightarrow> (exn + string) \<times> 'g" where
  "redact_text E R text g = redact_loop E (r_faker R) (r_patterns R) text g"

section \<open>An engine and a generator for the examples\<close>

text \<open>
  A rule made of ordinary characters matches exactly its own text, and \<open>re\<close> finds its
  occurrences from left to right without overlap. \<open>ordinary_engine\<close> implements these
  rules and no others: the empty rule and a rule with a metacharacter do not compile in
  it. The examples use it only on rules of ordinary characters and on the rule \<open>(\<close>,
  which \<open>re\<close> rejects as well.
\<close>

definition is_meta :: "char \<Rightarrow> bool" where
  "is_meta c = (c \<in> set (bslash # ''.^$*+?{}[]|()''))"

fun lit_scan :: "string \<Rightarrow> nat \<Rightarrow> nat \<Rightarrow> string \<Rightarrow> rmatch list" where
  "lit_scan p i skip [] = []"
| "lit_scan p i skip (c # cs) =
    (if skip = 0 \<and> take (length p) (c # cs) = p
     then \<lparr>m_start = i, m_end = i + length p, m_groups = []\<rparr>
            # lit_scan p (Suc i) (length p - 1) cs
     else lit_scan p (Suc i) (skip - 1) cs)"

definition ordinary_rule :: "string \<Rightarrow> regex" where
  "ordinary_rule p =
    \<lparr>rx_groups = 0, rx_groupindex = (\<lambda>name. None), rx_scan = lit_scan p 0 0\<rparr>"

definition ordinary_engine :: re_engine where
  "ordinary_engine p =
    (if p = [] \<or> list_ex is_meta p then None else Some (ordinary_rule p))"

text \<open>A generator that replays a script of outcomes, one per call of any method.\<close>

fun replay :: "(exn + string) list \<Rightarrow> (exn + string) \<times> (exn + string) list" where
  "replay [] = (Inl (OtherError ''StopIteration''), [])"
| "replay (r # rs) = (r, rs)"

definition scripted :: "(exn + string) list faker" where
  "scripted = \<lparr>faker_name = replay, faker_address = replay, faker_phone_number = replay\<rparr>"

section \<open>Loading a Pattern Set\<close>

text \<open>What \<open>json.load\<close> returns: a JSON object becomes a \<open>dict\<close>, in the order read.\<close>

datatype json =
    JNull
  | JBool bool
  | JInt int
  | JFloat real
  | JString string
  | JArray "json list"
  | JObject "(string \<times> json) list"

text \<open>
  \<open>load_patterns\<close>. The file system and the JSON parser are outside the program and are
  parameters: \<open>fs\<close> gives the content of a path or the exception \<open>open\<close> raises
  (\<open>FileNotFoundError\<close> when the path does not exist), \<open>json_load\<close> gives the parsed
  value or the exception of the parser (\<open>JSONDecodeError\<close> on malformed syntax). The only
  test of the function is \<open>isinstance(patterns, dict)\<close>, and every handler raises the
  exception again.
\<close>

definition load_patterns ::
  "(string \<Rightarrow> exn + string) \<Rightarrow> (string \<Rightarrow> exn + json) \<Rightarrow> string
    \<Rightarrow> exn + (string \<times> json) list" where
  "load_patterns fs json_load file_path =
    (case fs file_path of
       Inl e \<Rightarrow> Inl e
     | Inr content \<Rightarrow>
         (case json_load content of
            Inl e \<Rightarrow> Inl e
          | Inr patterns \<Rightarrow>
              (case patterns of JObject d \<Rightarrow> Inr d | _ \<Rightarrow> Inl TypeError)))"

text \<open>
  The shape the specification asks of a configuration source: a mapping of string to
  string at the top level.
\<close>

fun is_jstring :: "json \<Rightarrow> bool" where
  "is_jstring (JString s) = True"
| "is_jstring j = False"

fun string_to_string :: "json \<Rightarrow> bool" where
  "string_to_string (JObject d) = list_all (\<lambda>(k, v). is_jstring v) d"
| "string_to_string j = False"

section \<open>Notions used to state the properties\<close>

text \<open>
  The pieces of a text outside the matches \<open>ms\<close>, from position \<open>i\<close> on: the text
  before the first match, between two matches, and after the last one.
\<close>

fun gaps :: "string \<Rightarrow> nat \<Rightarrow> rmatch list \<Rightarrow> string list" where
  "gaps text i [] = [drop i text]"
| "gaps text i (m # ms) = take (m_start m - i) (drop i text) # gaps text (m_end m) ms"

text \<open>Gaps and insertions in turn, starting with a gap.\<close>

fun weave :: "string list \<Rightarrow> string list \<Rightarrow> string" where
  "weave [] rs = concat rs"
| "weave (g # gs) [] = g @ concat gs"
| "weave (g # gs) (r # rs) = g @ r @ weave gs rs"

text \<open>The text a match covers.\<close>

definition matched :: "string \<Rightarrow> rmatch \<Rightarrow> string" where
  "matched text m = take (m_end m - m_start m) (drop (m_start m) text)"

text \<open>
  What \<open>re\<close> promises of the matches of one scan of a text of length \<open>n\<close>: they lie
  within the text, in order, and do not overlap.
\<close>

fun spans_ok :: "nat \<Rightarrow> nat \<Rightarrow> rmatch list \<Rightarrow> bool" where
  "spans_ok i n [] = True"
| "spans_ok i n (m # ms) =
    (i \<le> m_start m \<and> m_start m \<le> m_end m \<and> m_end m \<le> n \<and> spans_ok (m_end m) n ms)"


text \<open>
  A generator that also counts the calls made to it: each call of a method of
  \<open>counting F\<close> is the same call of \<open>F\<close>, and adds one to the count kept beside the
  state of \<open>F\<close>.
\<close>

definition counted ::
  "('g \<Rightarrow> (exn + string) \<times> 'g) \<Rightarrow> 'g \<times> nat \<Rightarrow> (exn + string) \<times> ('g \<times> nat)" where
  "counted f = (\<lambda>(g, n). case f g of (r, g') \<Rightarrow> (r, (g', Suc n)))"

definition counting :: "'g faker \<Rightarrow> ('g \<times> nat) faker" where
  "counting F =
    \<lparr>faker_name = counted (faker_name F),
     faker_address = counted (faker_address F),
     faker_phone_number = counted (faker_phone_number F)\<rparr>"

text \<open>Every rule of the set compiles and matches nowhere in the text.\<close>

fun unmatched :: "re_engine \<Rightarrow> patterns \<Rightarrow> string \<Rightarrow> bool" where
  "unmatched E [] text = True"
| "unmatched E ((label, rule) # ps) text =
    (case E rule of
       None \<Rightarrow> False
     | Some rx \<Rightarrow> rx_scan rx text = [] \<and> unmatched E ps text)"

text \<open>
  Every value that \<open>_get_replacement\<close> returns in the course of a call, starting with
  the generator in state \<open>g\<close>, is a well-formed replacement template for its rule.
\<close>

fun templates_ok :: "re_engine \<Rightarrow> 'g faker \<Rightarrow> patterns \<Rightarrow> 'g \<Rightarrow> bool" where
  "templates_ok E F [] g = True"
| "templates_ok E F ((label, rule) # ps) g =
    (case get_replacement F label g of
       (repl, g') \<Rightarrow>
         (case E rule of
            None \<Rightarrow> False
          | Some rx \<Rightarrow> \<not> isl (compile_template rx repl))
         \<and> templates_ok E F ps g')"

section \<open>Auxiliary facts\<close>

lemma redact_loop_append:
  "redact_loop E F (ps @ qs) inp g =
    (case redact_loop E F ps inp g of
       (Inl e, g') \<Rightarrow> (Inl e, g')
     | (Inr t, g') \<Rightarrow> redact_loop E F qs t g')"
  by (induction E F ps inp g rule: redact_loop.induct)
     (auto split: prod.splits sum.splits)

lemma splice_weave:
  "splice text i (map (\<lambda>m. (m_start m, m_end m, f m)) ms) = weave (gaps text i ms) (map f ms)"
  by (induction ms arbitrary: i) simp_all

lemma take_drop_chain:
  assumes "i \<le> b" "b \<le> e"
  shows "take (b - i) (drop i xs) @ take (e - b) (drop b xs) @ drop e xs = drop i xs"
proof -
  have "take (e - b) (drop b xs) @ drop e xs = drop b xs"
    using assms(2) by (metis append_take_drop_id drop_drop le_add_diff_inverse2)
  moreover have "take (b - i) (drop i xs) @ drop b xs = drop i xs"
    using assms(1) by (metis append_take_drop_id drop_drop le_add_diff_inverse2)
  ultimately show ?thesis by simp
qed

lemma weave_matched:
  "spans_ok i (length text) ms \<Longrightarrow>
    weave (gaps text i ms) (map (matched text) ms) = drop i text"
proof (induction ms arbitrary: i)
  case Nil
  then show ?case by simp
next
  case (Cons m ms)
  have rest: "weave (gaps text (m_end m) ms) (map (matched text) ms) = drop (m_end m) text"
    using Cons by simp
  have head: "matched text m = take (m_end m - m_start m) (drop (m_start m) text)"
    by (simp add: matched_def)
  have "weave (gaps text i (m # ms)) (map (matched text) (m # ms)) =
      take (m_start m - i) (drop i text) @ matched text m
        @ weave (gaps text (m_end m) ms) (map (matched text) ms)"
    by simp
  also have "\<dots> = drop i text"
    using Cons.prems take_drop_chain [of i "m_start m" "m_end m" "text"]
    by (simp only: rest head spans_ok.simps)
  finally show ?case .
qed


lemma re_sub_weave:
  assumes "E rule = Some rx" "compile_template rx repl = Inr tpl"
  shows "re_sub E rule repl text =
    Inr (weave (gaps text 0 (rx_scan rx text)) (map (expand_template tpl text) (rx_scan rx text)))"
  using assms by (simp add: re_sub_def splice_weave)

lemma expand_plain:
  "map (expand_template [Lit v] text) ms = replicate (length ms) v"
  by (induction ms) simp_all

lemma re_sub_plain:
  assumes "E rule = Some rx" "bslash \<notin> set v"
  shows "re_sub E rule v text =
    Inr (weave (gaps text 0 (rx_scan rx text)) (replicate (length (rx_scan rx text)) v))"
proof -
  have "compile_template rx v = Inr [Lit v]"
    using assms(2) by (simp add: compile_template_def)
  then show ?thesis
    using re_sub_weave [of E rule rx v "[Lit v]" "text"] assms(1)
    by (simp add: expand_plain)
qed


lemma get_replacement_unknown:
  "label \<notin> {''name'', ''address'', ''phone_number''} \<Longrightarrow> get_replacement F label g = ([], g)"
  by (simp add: get_replacement_def)

lemma weave_empty: "weave gs (replicate n []) = concat gs"
proof (induction gs arbitrary: n)
  case Nil
  then show ?case by simp
next
  case (Cons a gs)
  then show ?case by (cases n) simp_all
qed


lemma template_backref:
  "compile_template rx (bslash # ''g<0>'') = Inr [Group 0]"
  by (simp add: compile_template_def add_group_def is_digit_def number_of_def digit_val_def)

lemma template_stray: "compile_template rx [bslash] = Inl ReError"
  by (simp add: compile_template_def)

lemma expand_backref:
  "map (expand_template [Group 0] inp) ms = map (matched inp) ms"
  by (simp add: matched_def)

lemma ordinary_ab: "ordinary_engine ''ab'' = Some (ordinary_rule ''ab'')"
  by (simp add: ordinary_engine_def is_meta_def)

lemma recover_counted:
  "recover (counted f (g, n)) = (fst (recover (f g)), snd (recover (f g)), Suc n)"
proof (cases "f g")
  case (Pair r g')
  then show ?thesis by (cases r) (simp_all add: counted_def)
qed

lemma get_replacement_counting:
  "get_replacement (counting F) label (g, n) =
    (fst (get_replacement F label g), snd (get_replacement F label g),
     if label \<in> {''name'', ''address'', ''phone_number''} then Suc n else n)"
  by (simp add: get_replacement_def counting_def recover_counted)

lemma scan_ab3:
  "rx_scan (ordinary_rule ''ab'') ''ab-ab-ab'' =
    [\<lparr>m_start = 0, m_end = 2, m_groups = []\<rparr>, \<lparr>m_start = 3, m_end = 5, m_groups = []\<rparr>,
     \<lparr>m_start = 6, m_end = 8, m_groups = []\<rparr>]"
  by (simp add: ordinary_rule_def)

lemmas run_defs =
  get_replacement_def scripted_def re_sub_def ordinary_engine_def ordinary_rule_def
  is_meta_def compile_template_def

section \<open>Construction: which Pattern Set the engine uses\<close>

text \<open>
  Claim C4, as amended. A Pattern Set that is supplied and not empty is used as it is:
  it replaces the built-in set and is not merged with it. The built-in set is used when
  no Pattern Set is supplied, and also when the supplied one is empty.
\<close>

theorem supplied_patterns_replace_defaults:
  "(ps \<noteq> [] \<longrightarrow> r_patterns (init (Some ps) F) = ps)
   \<and> r_patterns (init (Some []) F) = default_patterns
   \<and> r_patterns (init None F) = default_patterns"
  by (cases ps) (simp_all add: init_def)

text \<open>An instance of C4 as amended: a set with the one category \<open>email\<close>.\<close>

theorem supplied_patterns_replace_defaults_witness:
  "[(''email'', ''ab'')] \<noteq> []
   \<and> r_patterns (init (Some [(''email'', ''ab'')]) scripted) = [(''email'', ''ab'')]"
  using supplied_patterns_replace_defaults [of "[(''email'', ''ab'')]" scripted] by simp

text \<open>
  C4 as stated fails for the empty mapping: an engine built with it holds the three
  built-in categories, not the (zero) categories supplied.
\<close>

theorem empty_patterns_give_defaults:
  "r_patterns (init (Some []) scripted) \<noteq> []
   \<and> map fst (r_patterns (init (Some []) scripted)) = [''name'', ''address'', ''phone_number'']"
  by (simp add: init_def default_patterns_def)

section \<open>Loading: which sources are rejected\<close>

text \<open>
  Claim C3, as amended. \<open>load_patterns\<close> raises again, unchanged, the exception of
  opening the file (\<open>FileNotFoundError\<close> for a path that does not exist) and the
  exception of the parser (\<open>JSONDecodeError\<close> for malformed syntax); it raises
  \<open>TypeError\<close> when the parsed value is not an object; and it returns every parsed
  object as it is, whatever the types of its values.
\<close>

theorem load_patterns_outcomes:
  "(fs path = Inl e \<longrightarrow> load_patterns fs json_load path = Inl e)
   \<and> (fs path = Inr content \<and> json_load content = Inl e \<longrightarrow>
        load_patterns fs json_load path = Inl e)
   \<and> (fs path = Inr content \<and> json_load content = Inr (JObject d) \<longrightarrow>
        load_patterns fs json_load path = Inr d)
   \<and> (fs path = Inr content \<and> json_load content = Inr j \<and> (\<forall>d. j \<noteq> JObject d) \<longrightarrow>
        load_patterns fs json_load path = Inl TypeError)"
  by (cases j) (simp_all add: load_patterns_def)

text \<open>
  Instances of C3 as amended: a missing file, malformed syntax, a JSON array, and an
  object whose value is a number.
\<close>

theorem load_patterns_outcomes_witness:
  "load_patterns (\<lambda>p. Inl FileNotFoundError) (\<lambda>c. Inr JNull) ''p.json''
       = Inl FileNotFoundError
   \<and> load_patterns (\<lambda>p. Inr ''cfg'') (\<lambda>c. Inl JSONDecodeError) ''p.json''
       = Inl JSONDecodeError
   \<and> load_patterns (\<lambda>p. Inr ''cfg'') (\<lambda>c. Inr (JArray [JString ''ab''])) ''p.json''
       = Inl TypeError
   \<and> load_patterns (\<lambda>p. Inr ''cfg'') (\<lambda>c. Inr (JObject [(''n'', JInt 7)])) ''p.json''
       = Inr [(''n'', JInt 7)]"
  using
    load_patterns_outcomes [of "\<lambda>p. Inl FileNotFoundError" "''p.json''" FileNotFoundError
      "\<lambda>c. Inr JNull" "''cfg''" "[]" JNull]
    load_patterns_outcomes [of "\<lambda>p. Inr ''cfg''" "''p.json''" JSONDecodeError
      "\<lambda>c. Inl JSONDecodeError" "''cfg''" "[]" JNull]
    load_patterns_outcomes [of "\<lambda>p. Inr ''cfg''" "''p.json''" TypeError
      "\<lambda>c. Inr (JArray [JString ''ab''])" "''cfg''" "[]" "JArray [JString ''ab'']"]
    load_patterns_outcomes [of "\<lambda>p. Inr ''cfg''" "''p.json''" TypeError
      "\<lambda>c. Inr (JObject [(''n'', JInt 7)])" "''cfg''" "[(''n'', JInt 7)]" JNull]
  by simp

text \<open>
  C3 as stated fails: an object with a value that is not a string is not a mapping of
  string to string, and it is returned, not rejected.
\<close>

theorem non_string_value_is_loaded:
  "\<not> string_to_string (JObject [(''email'', JInt 1)])
   \<and> load_patterns (\<lambda>p. Inr ''cfg'') (\<lambda>c. Inr (JObject [(''email'', JInt 1)])) ''patterns.json''
       = Inr [(''email'', JInt 1)]"
  by (simp add: load_patterns_def)

section \<open>The order of the passes\<close>

text \<open>
  Claim C5. The categories are applied one pass each, in the order of the Pattern Set.
  Wherever the set is cut, \<open>pre\<close>, then the category \<open>(label, rule)\<close>, then
  \<open>post\<close>: the pass of the category searches the text \<open>t1\<close> that the passes of
  \<open>pre\<close> have produced, with the generator as they left it, and only the rules of
  \<open>post\<close> are applied to its result. An error of any pass ends the call.
\<close>

theorem passes_in_order:
  "redact_loop E F (pre @ (label, rule) # post) inp g =
    (case redact_loop E F pre inp g of
       (Inl e, g1) \<Rightarrow> (Inl e, g1)
     | (Inr t1, g1) \<Rightarrow>
         (case get_replacement F label g1 of
            (repl, g2) \<Rightarrow>
              (case re_sub E rule repl t1 of
                 Inl e \<Rightarrow> (Inl e, g2)
               | Inr t2 \<Rightarrow> redact_loop E F post t2 g2)))"
  by (simp add: redact_loop_append split: prod.splits sum.splits)

text \<open>
  An instance of C5: the second rule \<open>Qb\<close> matches only in the text as the first pass
  has left it, and the first rule \<open>a\<close> is not applied again to the \<open>a\<close> that the
  second pass inserts.
\<close>

theorem passes_in_order_witness:
  "redact_loop ordinary_engine scripted [(''name'', ''a'')] ''ab'' [Inr ''Q'', Inr ''a'']
       = (Inr ''Qb'', [Inr ''a''])
   \<and> redact_text ordinary_engine
        (init (Some [(''name'', ''a''), (''address'', ''Qb'')]) scripted) ''ab''
        [Inr ''Q'', Inr ''a'']
       = (Inr ''a'', [])"
proof -
  have pre: "redact_loop ordinary_engine scripted [(''name'', ''a'')] ''ab'' [Inr ''Q'', Inr ''a'']
      = (Inr ''Qb'', [Inr ''a''])"
    by (simp add: run_defs)
  have pass: "get_replacement scripted ''address'' [Inr ''a''] = (''a'', [])"
    "re_sub ordinary_engine ''Qb'' ''a'' ''Qb'' = Inr ''a''"
    by (simp_all add: run_defs)
  show ?thesis
    using passes_in_order [of ordinary_engine scripted "[(''name'', ''a'')]" "''address''"
        "''Qb''" "[]" "''ab''" "[Inr ''Q'', Inr ''a'']"] pre pass
    by (simp add: redact_text_def init_def del: redact_loop.simps(2))
qed

section \<open>A rule that does not compile\<close>

text \<open>
  Claim C6. If a rule of the Pattern Set does not compile, the call returns no text: it
  ends with an error. When the passes before that rule succeed, so that the rule is
  used, the error is \<open>re.error\<close>, the pattern compilation error.
\<close>

theorem invalid_rule_aborts:
  assumes "E rule = None"
  shows "isl (fst (redact_loop E F (pre @ (label, rule) # post) inp g))
    \<and> (\<forall>t. fst (redact_loop E F pre inp g) = Inr t \<longrightarrow>
          fst (redact_loop E F (pre @ (label, rule) # post) inp g) = Inl ReError)"
  using assms
  by (auto simp add: redact_loop_append re_sub_def split: prod.splits sum.splits)

text \<open>
  An instance of C6: the second of three rules is \<open>(\<close>; the first pass has already
  removed \<open>ab\<close>, and the call still returns no text.
\<close>

theorem invalid_rule_aborts_witness:
  "ordinary_engine ''('' = None
   \<and> fst (redact_loop ordinary_engine scripted [(''email'', ''ab'')] ''xaby'' [Inr ''N''])
       = Inr ''xy''
   \<and> fst (redact_loop ordinary_engine scripted
            ([(''email'', ''ab'')] @ (''name'', ''('') # [(''address'', ''y'')]) ''xaby''
            [Inr ''N''])
       = Inl ReError"
proof -
  have h: "ordinary_engine ''('' = None"
    by (simp add: ordinary_engine_def is_meta_def)
  have p: "fst (redact_loop ordinary_engine scripted [(''email'', ''ab'')] ''xaby'' [Inr ''N''])
      = Inr ''xy''"
    by (simp add: run_defs)
  show ?thesis
    using invalid_rule_aborts [of ordinary_engine "''(''" scripted "[(''email'', ''ab'')]"
        "''name''" "[(''address'', ''y'')]" "''xaby''" "[Inr ''N'']"] h p
    by simp
qed

section \<open>One generated value for each pass\<close>

text \<open>
  Claim C1, as amended. In every category pass the replacement string \<open>repl\<close> is
  obtained once, before the text is searched and whatever the number of matches (also
  none): the pass makes exactly one call of the generator when the label is \<open>name\<close>,
  \<open>address\<close> or \<open>phone_number\<close>, and no call for any other label. The outcome of
  the pass is that of one substitution with this one string as the replacement
  template. When the rule compiles and the string is a well-formed template, every match
  is replaced with the expansion of that same template; a string without a backslash is
  inserted unchanged at every match. No value is generated for a single match.
\<close>

theorem one_value_per_pass:
  assumes "get_replacement F label g = (repl, g')"
  shows "redact_loop E (counting F) [(label, rule)] inp (g, n) =
      (re_sub E rule repl inp,
       g', if label \<in> {''name'', ''address'', ''phone_number''} then Suc n else n)
    \<and> (\<forall>rx tpl. E rule = Some rx \<and> compile_template rx repl = Inr tpl \<longrightarrow>
          re_sub E rule repl inp =
            Inr (weave (gaps inp 0 (rx_scan rx inp))
                  (map (expand_template tpl inp) (rx_scan rx inp))))
    \<and> (\<forall>rx. E rule = Some rx \<and> bslash \<notin> set repl \<longrightarrow>
          re_sub E rule repl inp =
            Inr (weave (gaps inp 0 (rx_scan rx inp))
                  (replicate (length (rx_scan rx inp)) repl)))"
proof -
  have "redact_loop E (counting F) [(label, rule)] inp (g, n) =
      (re_sub E rule repl inp,
       g', if label \<in> {''name'', ''address'', ''phone_number''} then Suc n else n)"
    using assms by (cases "re_sub E rule repl inp") (simp_all add: get_replacement_counting)
  then show ?thesis
    using re_sub_weave [of E rule _ repl _ inp] re_sub_plain [of E rule _ repl inp]
    by blast
qed

text \<open>
  Instances of C1 as amended, each on a text with three matches: a value without a
  backslash (one call, the value three times); a value that refers to group 0 (one
  call, each match expanded from the one template); a label without a generator (no
  call, the empty string three times).
\<close>

theorem one_value_per_pass_witness:
  "get_replacement scripted ''name'' [Inr ''Q'', Inr ''R''] = (''Q'', [Inr ''R''])
   \<and> ordinary_engine ''ab'' = Some (ordinary_rule ''ab'')
   \<and> bslash \<notin> set ''Q''
   \<and> length (rx_scan (ordinary_rule ''ab'') ''ab-ab-ab'') = 3
   \<and> redact_loop ordinary_engine (counting scripted) [(''name'', ''ab'')] ''ab-ab-ab''
        ([Inr ''Q'', Inr ''R''], 0)
       = (Inr ''Q-Q-Q'', [Inr ''R''], 1)
   \<and> compile_template (ordinary_rule ''ab'') (bslash # ''g<0>!'') = Inr [Group 0, Lit ''!'']
   \<and> redact_loop ordinary_engine (counting scripted) [(''name'', ''ab'')] ''ab-ab-ab''
        ([Inr (bslash # ''g<0>!''), Inr ''R''], 0)
       = (Inr ''ab!-ab!-ab!'', [Inr ''R''], 1)
   \<and> redact_loop ordinary_engine (counting scripted) [(''email'', ''ab'')] ''ab-ab-ab''
        ([Inr ''Q'', Inr ''R''], 0)
       = (Inr ''--'', [Inr ''Q'', Inr ''R''], 0)"
proof -
  have h1: "get_replacement scripted ''name'' [Inr ''Q'', Inr ''R''] = (''Q'', [Inr ''R''])"
    by (simp add: get_replacement_def scripted_def)
  have h2: "get_replacement scripted ''name'' [Inr (bslash # ''g<0>!''), Inr ''R'']
      = (bslash # ''g<0>!'', [Inr ''R''])"
    by (simp add: get_replacement_def scripted_def)
  have h3: "get_replacement scripted ''email'' [Inr ''Q'', Inr ''R''] = ([], [Inr ''Q'', Inr ''R''])"
    by (simp add: get_replacement_def)
  have p: "bslash \<notin> set ''Q''" "bslash \<notin> set []" by simp_all
  have t: "compile_template (ordinary_rule ''ab'') (bslash # ''g<0>!'') = Inr [Group 0, Lit ''!'']"
    by (simp add: compile_template_def add_group_def is_digit_def number_of_def digit_val_def)
  show ?thesis
    using one_value_per_pass [where F = scripted and label = "''name''"
        and g = "[Inr ''Q'', Inr ''R'']" and repl = "''Q''" and g' = "[Inr ''R'']"
        and E = ordinary_engine and rule = "''ab''" and inp = "''ab-ab-ab''" and n = 0]
      one_value_per_pass [where F = scripted and label = "''name''"
        and g = "[Inr (bslash # ''g<0>!''), Inr ''R'']" and repl = "bslash # ''g<0>!''"
        and g' = "[Inr ''R'']"
        and E = ordinary_engine and rule = "''ab''" and inp = "''ab-ab-ab''" and n = 0]
      one_value_per_pass [where F = scripted and label = "''email''"
        and g = "[Inr ''Q'', Inr ''R'']" and repl = "[]" and g' = "[Inr ''Q'', Inr ''R'']"
        and E = ordinary_engine and rule = "''ab''" and inp = "''ab-ab-ab''" and n = 0]
      h1 h2 h3 ordinary_ab p t scan_ab3
    by (simp del: redact_loop.simps)
qed

text \<open>
  C1 as stated fails: the rule has two matches in the text and the generator would give
  \<open>X\<close> and then \<open>Y\<close>, but it is called once, \<open>Y\<close> is never asked for, and both
  matches receive \<open>X\<close>.
\<close>

theorem one_value_for_two_matches:
  "length (rx_scan (ordinary_rule ''ab'') ''ab ab'') = 2
   \<and> redact_loop ordinary_engine scripted [(''name'', ''ab'')] ''ab ab'' [Inr ''X'', Inr ''Y'']
       = (Inr ''X X'', [Inr ''Y''])"
  by (simp add: run_defs)

section \<open>Failure of the generator\<close>




section \<open>A category without a generator\<close>

text \<open>
  Claim C7. For a label other than \<open>name\<close>, \<open>address\<close> and \<open>phone_number\<close> the
  dispatch returns the empty string, without an error and without a call of the
  generator, and not the placeholder. In the pass of such a category every match is
  replaced with the empty string: what is left of the text is its pieces outside the
  matches.
\<close>

theorem unknown_label_empty:
  assumes "label \<notin> {''name'', ''address'', ''phone_number''}"
  shows "get_replacement F label g = ([], g)
    \<and> (\<forall>rx. E rule = Some rx \<longrightarrow>
          redact_loop E F [(label, rule)] inp g
            = (Inr (concat (gaps inp 0 (rx_scan rx inp))), g))"
proof -
  have r: "get_replacement F label g = ([], g)"
    using assms by (rule get_replacement_unknown)
  have "redact_loop E F [(label, rule)] inp g
      = (Inr (concat (gaps inp 0 (rx_scan rx inp))), g)" if "E rule = Some rx" for rx
    using that r re_sub_plain [of E rule rx "[]" inp] by (simp add: weave_empty)
  then show ?thesis using r by blast
qed

text \<open>An instance of C7: the label \<open>email\<close>.\<close>

theorem unknown_label_empty_witness:
  "''email'' \<notin> {''name'', ''address'', ''phone_number''}
   \<and> get_replacement scripted ''email'' [Inr ''N''] = ([], [Inr ''N''])
   \<and> ordinary_engine ''t@e'' = Some (ordinary_rule ''t@e'')
   \<and> redact_loop ordinary_engine scripted [(''email'', ''t@e'')] ''My email is t@e'' [Inr ''N'']
       = (Inr ''My email is '', [Inr ''N''])"
proof -
  have h: "''email'' \<notin> {''name'', ''address'', ''phone_number''}" by simp
  have e: "ordinary_engine ''t@e'' = Some (ordinary_rule ''t@e'')"
    by (simp add: ordinary_engine_def is_meta_def)
  show ?thesis
    using unknown_label_empty [OF h, of scripted "[Inr ''N'']" ordinary_engine "''t@e''"
        "''My email is t@e''"] e
    by (simp add: ordinary_rule_def del: redact_loop.simps)
qed

section \<open>A text without a match\<close>

text \<open>
  Claim C8, as amended. If every rule of the Pattern Set compiles and matches nowhere in
  the text, and every value generated in the course of the call is a well-formed
  replacement template (any value without a backslash is), then the call returns the
  text unchanged.
\<close>

theorem no_match_identity:
  assumes "unmatched E ps inp" "templates_ok E F ps g"
  shows "fst (redact_loop E F ps inp g) = Inr inp"
  using assms
proof (induction ps arbitrary: g)
  case Nil
  then show ?case by simp
next
  case (Cons p ps)
  obtain label rule where p: "p = (label, rule)" by (cases p)
  obtain repl g' where r: "get_replacement F label g = (repl, g')"
    by (cases "get_replacement F label g")
  from Cons.prems p obtain rx where rx: "E rule = Some rx" "rx_scan rx inp = []"
    and u: "unmatched E ps inp"
    by (auto split: option.splits)
  from Cons.prems(2) p r rx have ok: "\<not> isl (compile_template rx repl)"
    and t: "templates_ok E F ps g'"
    by simp_all
  from ok obtain tpl where "compile_template rx repl = Inr tpl"
    by (cases "compile_template rx repl") simp_all
  then have "re_sub E rule repl inp = Inr inp"
    using rx by (simp add: re_sub_def)
  then show ?case
    using p r Cons.IH [OF u t] by simp
qed

text \<open>An instance of C8 as amended: two rules, neither matches.\<close>

theorem no_match_identity_witness:
  "unmatched ordinary_engine [(''name'', ''zz''), (''email'', ''q'')] ''abc''
   \<and> templates_ok ordinary_engine scripted [(''name'', ''zz''), (''email'', ''q'')] [Inr ''N'']
   \<and> fst (redact_loop ordinary_engine scripted [(''name'', ''zz''), (''email'', ''q'')] ''abc''
        [Inr ''N'']) = Inr ''abc''"
proof -
  have u: "unmatched ordinary_engine [(''name'', ''zz''), (''email'', ''q'')] ''abc''"
    by (simp add: run_defs)
  have t: "templates_ok ordinary_engine scripted [(''name'', ''zz''), (''email'', ''q'')]
      [Inr ''N'']"
    by (simp add: run_defs)
  show ?thesis
    using no_match_identity [OF u t] u t by simp
qed

text \<open>
  C8 as stated fails: the rule \<open>zz\<close> matches nowhere in \<open>abc\<close>, and the call still
  does not return \<open>abc\<close>. The generated value is a single backslash, which \<open>re.sub\<close>
  rejects as a template before it searches the text.
\<close>

theorem stray_backslash_breaks_identity:
  "unmatched ordinary_engine [(''name'', ''zz'')] ''abc''
   \<and> fst (redact_loop ordinary_engine scripted [(''name'', ''zz'')] ''abc'' [Inr [bslash]])
       = Inl ReError"
  by (simp add: run_defs)

section \<open>What a pass leaves unchanged\<close>



section \<open>The generated value is a template\<close>

text \<open>
  Claim C10. The generated value reaches \<open>re.sub\<close> as a replacement template, not as
  literal text. Two generated values with a backslash show it, for every rule that
  compiles: with a value that is a single backslash the call raises \<open>re.error\<close>; with
  the reference to group 0 (backslash, \<open>g<0>\<close>) every match is replaced with its own
  text, so that the text comes back as it went in and the value itself is nowhere in
  the result.
\<close>

theorem replacement_is_template:
  assumes "E rule = Some rx"
  shows "(faker_name F g = (Inr [bslash], g') \<longrightarrow>
            redact_loop E F ((''name'', rule) # ps) inp g = (Inl ReError, g'))
    \<and> (faker_name F g = (Inr (bslash # ''g<0>''), g') \<and> spans_ok 0 (length inp) (rx_scan rx inp)
          \<longrightarrow> redact_loop E F [(''name'', rule)] inp g = (Inr inp, g'))"
proof -
  have a: "redact_loop E F ((''name'', rule) # ps) inp g = (Inl ReError, g')"
    if "faker_name F g = (Inr [bslash], g')"
    using that assms by (simp add: get_replacement_def re_sub_def template_stray)
  have b: "redact_loop E F [(''name'', rule)] inp g = (Inr inp, g')"
    if f: "faker_name F g = (Inr (bslash # ''g<0>''), g')"
      and s: "spans_ok 0 (length inp) (rx_scan rx inp)"
  proof -
    have "re_sub E rule (bslash # ''g<0>'') inp =
        Inr (weave (gaps inp 0 (rx_scan rx inp)) (map (matched inp) (rx_scan rx inp)))"
      using re_sub_weave [of E rule rx "bslash # ''g<0>''" "[Group 0]" inp] assms
      by (simp only: template_backref expand_backref)
    then have "re_sub E rule (bslash # ''g<0>'') inp = Inr inp"
      using weave_matched [OF s] by simp
    then show ?thesis
      using f by (simp add: get_replacement_def)
  qed
  show ?thesis using a b by blast
qed

text \<open>An instance of C10: both values, on a text with one match.\<close>

theorem replacement_is_template_witness:
  "ordinary_engine ''ab'' = Some (ordinary_rule ''ab'')
   \<and> redact_loop ordinary_engine scripted [(''name'', ''ab'')] ''xaby'' [Inr [bslash]]
       = (Inl ReError, [])
   \<and> spans_ok 0 (length ''xaby'') (rx_scan (ordinary_rule ''ab'') ''xaby'')
   \<and> redact_loop ordinary_engine scripted [(''name'', ''ab'')] ''xaby'' [Inr (bslash # ''g<0>'')]
       = (Inr ''xaby'', [])"
proof -
  have n: "faker_name scripted = replay" by (simp add: scripted_def)
  have s: "spans_ok 0 (length ''xaby'') (rx_scan (ordinary_rule ''ab'') ''xaby'')"
    by (simp add: ordinary_rule_def)
  show ?thesis
    using replacement_is_template [where E = ordinary_engine and rule = "''ab''"
        and rx = "ordinary_rule ''ab''" and F = scripted and g = "[Inr [bslash]]" and g' = "[]"
        and ps = "[]" and inp = "''xaby''"]
      replacement_is_template [where E = ordinary_engine and rule = "''ab''"
        and rx = "ordinary_rule ''ab''" and F = scripted and g = "[Inr (bslash # ''g<0>'')]"
        and g' = "[]" and ps = "[]" and inp = "''xaby''"]
      ordinary_ab n s
    by (simp del: redact_loop.simps)
qed

end
